theory Spec2Isabelle
  imports Main
begin

section \<open>Tables (app/db.py)\<close>

text \<open>
  The two tables the payment handlers touch. The column \<^verbatim>\<open>id\<close> of each table is
  renamed (\<open>id\<close> is the identity function of HOL); every other field keeps the
  column's name. \<^verbatim>\<open>status\<close> is a \<^verbatim>\<open>String(50)\<close> column, so it is a string here
  too, not an enumeration.
\<close>

record product =
  product_pk :: int
  product_name :: string
  price_in_pence :: int

record payment =
  payment_pk :: int
  product_id :: int
  user_id :: string
  stripe_payment_intent_id :: string
  status :: string
  amount_in_pence :: int

text \<open>
  The database: the rows of both tables in insertion order, and the sequence behind
  the integer primary key of \<^verbatim>\<open>payments\<close>.
\<close>

record database =
  products :: "product list"
  payments :: "payment list"
  payments_id_seq :: int

text \<open>The row of \<^verbatim>\<open>get_current_user\<close>: only its \<^verbatim>\<open>id\<close> is read by the handlers.\<close>

record user =
  user_pk :: int
  email :: string

section \<open>Exceptions and external collaborators\<close>

text \<open>
  What a handler raises: \<^verbatim>\<open>HTTPException(status_code, detail)\<close>, or one of the
  two errors of the storage layer that no handler catches: the error for the unique
  constraint on \<^verbatim>\<open>stripe_payment_intent_id\<close>, and the driver's \<^verbatim>\<open>DataError\<close> for a
  query argument that does not fit the 32-bit \<^verbatim>\<open>Integer\<close> column it is compared with.
\<close>

datatype exn =
  HTTPException (status_code: nat) (detail: string)
| UniqueViolationError
| DataError

text \<open>
  What \<^verbatim>\<open>stripe.PaymentIntent.create\<close> raises, each carrying \<^verbatim>\<open>str(e)\<close>. The
  constructors follow the \<^verbatim>\<open>except\<close> clauses in their order: \<open>CardError\<close> is an
  instance of \<^verbatim>\<open>stripe.CardError\<close>, \<open>StripeError\<close> any other instance of
  \<^verbatim>\<open>stripe.StripeError\<close> (the library's own connection error,
  \<^verbatim>\<open>stripe.APIConnectionError\<close>, is one of them), \<open>OtherException\<close> any other
  \<^verbatim>\<open>Exception\<close>.
\<close>

datatype stripe_exn =
  CardError string
| StripeError string
| OtherException string

text \<open>The object the gateway returns: the handler reads \<^verbatim>\<open>['id']\<close> and \<^verbatim>\<open>['client_secret']\<close>.\<close>

record payment_intent =
  pi_id :: string
  pi_client_secret :: "string option"

text \<open>
  The gateway call is a parameter of the handler: a function of the keyword arguments
  \<^verbatim>\<open>amount\<close>, \<^verbatim>\<open>currency\<close> and \<^verbatim>\<open>metadata\<close>.
\<close>

type_synonym gateway = "int \<Rightarrow> string \<Rightarrow> (string \<times> string) list \<Rightarrow> stripe_exn + payment_intent"

text \<open>What \<^verbatim>\<open>stripe.Webhook.construct_event\<close> raises, each carrying \<^verbatim>\<open>str(e)\<close>.\<close>

datatype construct_exn =
  ValueError string
| SignatureVerificationError string

text \<open>The verified event: \<^verbatim>\<open>event["type"]\<close> and \<^verbatim>\<open>event["data"]["object"]["id"]\<close>.\<close>

record event =
  event_type :: string
  data_object_id :: string

text \<open>
  \<^verbatim>\<open>construct_event(payload, sig_header, secret)\<close> is a parameter of the handler as
  well.
\<close>

type_synonym verifier = "string \<Rightarrow> string \<Rightarrow> string \<Rightarrow> construct_exn + event"

text \<open>
  The inbound request of the webhook: its raw body and its headers, an association
  list from lower-case header names to values.
\<close>

record request =
  body :: string
  headers :: "(string \<times> string) list"

record PaymentIntentRequest =
  req_product_id :: int

record PaymentIntentResponse =
  client_secret :: "string option"
  payment_intent_id :: string

section \<open>Python's \<^verbatim>\<open>str\<close> on integers\<close>

definition digit :: "nat \<Rightarrow> char" where
  "digit d = ''0123456789'' ! d"

function str_nat :: "nat \<Rightarrow> string" where
  "str_nat n = (if n < 10 then [digit n] else str_nat (n div 10) @ [digit (n mod 10)])"
  by pat_completeness auto
termination
  by (relation "measure (\<lambda>n. n)") auto

declare str_nat.simps [simp del]

definition str_int :: "int \<Rightarrow> string" where
  "str_int i = (if i < 0 then CHR ''-'' # str_nat (nat (- i)) else str_nat (nat i))"

section \<open>Queries\<close>

text \<open>The values of a 32-bit \<^verbatim>\<open>Integer\<close> column.\<close>

definition int32 :: "int \<Rightarrow> bool" where
  "int32 n = (- 2147483648 \<le> n \<and> n \<le> 2147483647)"

text \<open>
  \<^verbatim>\<open>products.select().where(products.c.id == product_id)\<close>, then \<^verbatim>\<open>fetch_one\<close>: the
  first row with that key, or \<^verbatim>\<open>None\<close>. The request's \<^verbatim>\<open>product_id\<close> is an unbounded
  Python \<^verbatim>\<open>int\<close>; one outside the range of the column makes the query raise
  \<^verbatim>\<open>DataError\<close> before any row is read.
\<close>

definition fetch_one_product :: "database \<Rightarrow> int \<Rightarrow> exn + product option" where
  "fetch_one_product db pid =
     (if int32 pid then Inr (find (\<lambda>p. product_pk p = pid) (products db))
      else Inl DataError)"

text \<open>
  \<^verbatim>\<open>payments.insert().values(...)\<close>: the primary key is drawn from the sequence, which
  advances whether or not the row is accepted; a row whose
  \<^verbatim>\<open>stripe_payment_intent_id\<close> is already stored violates the unique constraint and
  is not inserted.
\<close>

definition insert_payment ::
  "int \<Rightarrow> string \<Rightarrow> string \<Rightarrow> string \<Rightarrow> int \<Rightarrow> database \<Rightarrow> exn option \<times> database" where
  "insert_payment pid uid spid st amt db =
     (let k = payments_id_seq db;
          db1 = db\<lparr>payments_id_seq := k + 1\<rparr>
      in if list_ex (\<lambda>r. stripe_payment_intent_id r = spid) (payments db)
         then (Some UniqueViolationError, db1)
         else (None,
               db1\<lparr>payments := payments db @
                  [\<lparr>payment_pk = k, product_id = pid, user_id = uid,
                    stripe_payment_intent_id = spid, status = st,
                    amount_in_pence = amt\<rparr>]\<rparr>))"

text \<open>
  \<^verbatim>\<open>payments.update().where(payments.c.stripe_payment_intent_id == spid).values(status=st)\<close>:
  the \<^verbatim>\<open>WHERE\<close> clause names the external id only.
\<close>

definition update_payment_status :: "string \<Rightarrow> string \<Rightarrow> database \<Rightarrow> database" where
  "update_payment_status spid st db =
     db\<lparr>payments :=
          map (\<lambda>r. if stripe_payment_intent_id r = spid then r\<lparr>status := st\<rparr> else r)
              (payments db)\<rparr>"

section \<open>Handlers (app/main.py)\<close>

text \<open>
  \<^verbatim>\<open>initiate_payment\<close>. The result is the response or the exception raised, with the
  database afterwards; an exception of the storage layer is not caught and leaves the
  handler as it is. Console output is not part of the model.
\<close>

definition initiate_payment ::
  "gateway \<Rightarrow> database \<Rightarrow> PaymentIntentRequest \<Rightarrow> user \<Rightarrow>
     (exn + PaymentIntentResponse) \<times> database" where
  "initiate_payment create db intent_request current_user =
     (case fetch_one_product db (req_product_id intent_request) of
        Inl x \<Rightarrow> (Inl x, db)
      | Inr None \<Rightarrow> (Inl (HTTPException 404 ''Product not found''), db)
      | Inr (Some product_row) \<Rightarrow>
          (let amount = price_in_pence product_row;
               user_id_from_token = user_pk current_user
           in case create amount ''gbp''
                     [(''user_id'', str_int user_id_from_token),
                      (''product_id'', str_int (req_product_id intent_request))] of
                Inl (CardError e) \<Rightarrow> (Inl (HTTPException 400 e), db)
              | Inl (StripeError e) \<Rightarrow> (Inl (HTTPException 400 (''Stripe error: '' @ e)), db)
              | Inl (OtherException e) \<Rightarrow>
                  (Inl (HTTPException 500 (''An unexpected error occurred: '' @ e)), db)
              | Inr intent \<Rightarrow>
                  (case insert_payment (req_product_id intent_request)
                          (str_int user_id_from_token) (pi_id intent) ''pending'' amount db of
                     (Some x, db') \<Rightarrow> (Inl x, db')
                   | (None, db') \<Rightarrow>
                       (Inr \<lparr>client_secret = pi_client_secret intent,
                             payment_intent_id = pi_id intent\<rparr>, db'))))"

text \<open>The acknowledgment \<^verbatim>\<open>{"status": "success"}\<close>.\<close>

definition success_ack :: "(string \<times> string) list" where
  "success_ack = [(''status'', ''success'')]"

text \<open>
  \<^verbatim>\<open>stripe_webhook\<close>. \<^verbatim>\<open>not sig_header\<close> holds for an absent header and for an empty
  one, \<^verbatim>\<open>not STRIPE_WEBHOOK_SECRET\<close> for the empty string the module falls back to.
  The result is the acknowledgment or the exception raised, with the database
  afterwards; the lines the handler prints are not part of the model.
\<close>

definition stripe_webhook ::
  "verifier \<Rightarrow> string \<Rightarrow> database \<Rightarrow> request \<Rightarrow>
     (exn + (string \<times> string) list) \<times> database" where
  "stripe_webhook construct_event STRIPE_WEBHOOK_SECRET db req =
     (let payload = body req in
      case map_of (headers req) ''stripe-signature'' of
        None \<Rightarrow> (Inl (HTTPException 400 ''Missing Stripe-Signature header''), db)
      | Some sig_header \<Rightarrow>
          if sig_header = [] then
            (Inl (HTTPException 400 ''Missing Stripe-Signature header''), db)
          else if STRIPE_WEBHOOK_SECRET = [] then
            (Inl (HTTPException 500 ''Webhook secret not configured''), db)
          else
            (case construct_event payload sig_header STRIPE_WEBHOOK_SECRET of
               Inl (ValueError e) \<Rightarrow>
                 (Inl (HTTPException 400 (''Invalid payload: '' @ e)), db)
             | Inl (SignatureVerificationError e) \<Rightarrow>
                 (Inl (HTTPException 400 (''Invalid signature: '' @ e)), db)
             | Inr ev \<Rightarrow>
                 if event_type ev = ''payment_intent.succeeded'' then
                   (Inr success_ack,
                    update_payment_status (data_object_id ev) ''succeeded'' db)
                 else if event_type ev = ''payment_intent.payment_failed'' then
                   (Inr success_ack,
                    update_payment_status (data_object_id ev) ''failed'' db)
                 else (Inr success_ack, db)))"

text \<open>\<^verbatim>\<open>not sig_header\<close>, as a predicate on the request.\<close>

definition signature_missing :: "request \<Rightarrow> bool" where
  "signature_missing req =
     (case map_of (headers req) ''stripe-signature'' of None \<Rightarrow> True | Some s \<Rightarrow> s = [])"


text \<open>
  A signature-valid request carrying the event \<open>ev\<close>: the header is present and not
  empty, the secret is configured, and \<^verbatim>\<open>construct_event\<close> returns \<open>ev\<close>.
\<close>
definition verifies_to :: "verifier \<Rightarrow> string \<Rightarrow> request \<Rightarrow> event \<Rightarrow> bool" where
  "verifies_to construct_event secret req ev =
     (case map_of (headers req) ''stripe-signature'' of
        None \<Rightarrow> False
      | Some s \<Rightarrow> s \<noteq> [] \<and> secret \<noteq> [] \<and> construct_event (body req) s secret = Inr ev)"

section \<open>Concrete data\<close>

text \<open>
  The scenario of the specification: the product Widget at 1999 pence, the user 1, the
  gateway returning the intent \<^verbatim>\<open>pi_1\<close> with the client secret \<^verbatim>\<open>cs_1\<close>.
\<close>

definition widget_db :: database where
  "widget_db =
     \<lparr>products = [\<lparr>product_pk = 1, product_name = ''Widget'', price_in_pence = 1999\<rparr>],
      payments = [], payments_id_seq = 1\<rparr>"

definition widget_payment :: "string \<Rightarrow> payment" where
  "widget_payment st =
     \<lparr>payment_pk = 1, product_id = 1, user_id = ''1'', stripe_payment_intent_id = ''pi_1'',
      status = st, amount_in_pence = 1999\<rparr>"

definition paid_db :: "string \<Rightarrow> database" where
  "paid_db st = widget_db\<lparr>payments := [widget_payment st], payments_id_seq := 2\<rparr>"

definition user_one :: user where
  "user_one = \<lparr>user_pk = 1, email = ''a@example.com''\<rparr>"

definition widget_request :: PaymentIntentRequest where
  "widget_request = \<lparr>req_product_id = 1\<rparr>"

definition gateway_returns :: "string \<Rightarrow> string \<Rightarrow> gateway" where
  "gateway_returns i cs = (\<lambda>amount currency metadata. Inr \<lparr>pi_id = i, pi_client_secret = Some cs\<rparr>)"

definition gateway_raises :: "stripe_exn \<Rightarrow> gateway" where
  "gateway_raises e = (\<lambda>amount currency metadata. Inl e)"

definition signed_request :: request where
  "signed_request = \<lparr>body = ''{}'', headers = [(''stripe-signature'', ''t=1,v1=ab'')]\<rparr>"

definition unsigned_request :: request where
  "unsigned_request = \<lparr>body = ''{}'', headers = []\<rparr>"

definition delivers :: "string \<Rightarrow> string \<Rightarrow> verifier" where
  "delivers ty oid = (\<lambda>payload sig_header secret. Inr \<lparr>event_type = ty, data_object_id = oid\<rparr>)"

definition rejects :: "construct_exn \<Rightarrow> verifier" where
  "rejects e = (\<lambda>payload sig_header secret. Inl e)"

section \<open>The status update\<close>

lemma update_payment_status_fields:
  "products (update_payment_status spid st db) = products db"
  "payments_id_seq (update_payment_status spid st db) = payments_id_seq db"
  "length (payments (update_payment_status spid st db)) = length (payments db)"
  by (simp_all add: update_payment_status_def)

lemma update_payment_status_nth:
  "i < length (payments db) \<Longrightarrow>
   payments (update_payment_status spid st db) ! i =
     (if stripe_payment_intent_id (payments db ! i) = spid
      then (payments db ! i)\<lparr>status := st\<rparr> else payments db ! i)"
  by (simp add: update_payment_status_def)

lemma update_payment_status_unknown:
  assumes "\<not> list_ex (\<lambda>r. stripe_payment_intent_id r = spid) (payments db)"
  shows "update_payment_status spid st db = db"
proof -
  have "map (\<lambda>r. if stripe_payment_intent_id r = spid then r\<lparr>status := st\<rparr> else r)
          (payments db) = payments db"
    using assms by (intro map_idI) (auto simp: list_ex_iff)
  then show ?thesis by (simp add: update_payment_status_def)
qed

lemma update_payment_status_twice:
  "update_payment_status spid st (update_payment_status spid st db) =
   update_payment_status spid st db"
  by (simp add: update_payment_status_def comp_def cong: if_cong)

lemma stripe_webhook_verified:
  assumes "verifies_to construct_event secret req ev"
  shows "stripe_webhook construct_event secret db req =
     (Inr success_ack,
      if event_type ev = ''payment_intent.succeeded''
        then update_payment_status (data_object_id ev) ''succeeded'' db
      else if event_type ev = ''payment_intent.payment_failed''
        then update_payment_status (data_object_id ev) ''failed'' db
      else db)"
  using assms
  by (auto simp: verifies_to_def stripe_webhook_def split: option.splits)

lemma stripe_webhook_unverified:
  assumes "\<forall>ev. \<not> verifies_to construct_event secret req ev"
  shows "snd (stripe_webhook construct_event secret db req) = db"
proof (cases "map_of (headers req) ''stripe-signature''")
  case None
  then show ?thesis by (simp add: stripe_webhook_def)
next
  case (Some s)
  show ?thesis
  proof (cases "s = [] \<or> secret = []")
    case True
    with Some show ?thesis by (auto simp: stripe_webhook_def)
  next
    case False
    with Some assms have "\<forall>ev. construct_event (body req) s secret \<noteq> Inr ev"
      by (simp add: verifies_to_def)
    with Some False show ?thesis
      by (auto simp: stripe_webhook_def split: sum.splits construct_exn.splits)
  qed
qed

lemma verifies_to_delivers:
  "secret \<noteq> [] \<Longrightarrow>
   verifies_to (delivers ty oid) secret signed_request \<lparr>event_type = ty, data_object_id = oid\<rparr>"
  by (simp add: verifies_to_def delivers_def signed_request_def)

lemma status_update_keeps:
  assumes "r' = r\<lparr>status := s\<rparr>"
  shows "payment_pk r' = payment_pk r" and "product_id r' = product_id r"
    and "user_id r' = user_id r"
    and "stripe_payment_intent_id r' = stripe_payment_intent_id r"
    and "amount_in_pence r' = amount_in_pence r"
  using assms by simp_all

lemma update_payment_status_frame:
  "list_all2 (\<lambda>r r'. r' = r\<lparr>status := status r'\<rparr> \<and>
                (stripe_payment_intent_id r \<noteq> spid \<longrightarrow> r' = r))
     (payments db) (payments (update_payment_status spid st db))"
  by (simp add: update_payment_status_def list_all2_map2 list_all2_same)

lemma stripe_webhook_delivers:
  "secret \<noteq> [] \<Longrightarrow>
   stripe_webhook (delivers ty oid) secret db signed_request =
     (Inr success_ack,
      if ty = ''payment_intent.succeeded'' then update_payment_status oid ''succeeded'' db
      else if ty = ''payment_intent.payment_failed'' then update_payment_status oid ''failed'' db
      else db)"
  by (simp add: stripe_webhook_verified [OF verifies_to_delivers])

lemma update_paid_db:
  "update_payment_status ''pi_1'' st (paid_db st0) = paid_db st"
  by (simp add: update_payment_status_def paid_db_def widget_payment_def)

section \<open>Creating a payment intent\<close>

lemma str_int_one: "str_int 1 = ''1''"
  by code_simp

lemma find_distinct_key:
  assumes "distinct (map f xs)" and "x \<in> set xs" and "f x = k"
  shows "find (\<lambda>y. f y = k) xs = Some x"
  using assms
proof (induction xs)
  case Nil
  then show ?case by simp
next
  case (Cons a xs)
  show ?case
  proof (cases "f a = k")
    case True
    with Cons.prems have "x = a"
      by (cases "x = a") (auto simp: image_iff)
    with True show ?thesis by simp
  next
    case False
    with Cons show ?thesis by auto
  qed
qed

lemma fetch_one_product_present:
  assumes "distinct (map product_pk (products db))" and "p \<in> set (products db)"
    and "product_pk p = pid" and "int32 pid"
  shows "fetch_one_product db pid = Inr (Some p)"
  using assms by (simp add: fetch_one_product_def find_distinct_key)

lemma fetch_one_product_absent:
  assumes "pid \<notin> product_pk ` set (products db)" and "int32 pid"
  shows "fetch_one_product db pid = Inr None"
  using assms by (auto simp: fetch_one_product_def find_None_iff)

lemma fetch_widget: "fetch_one_product widget_db (req_product_id widget_request) =
    Inr (Some \<lparr>product_pk = 1, product_name = ''Widget'', price_in_pence = 1999\<rparr>)"
  by (simp add: fetch_one_product_def widget_db_def widget_request_def int32_def)

lemma find_widget: "find (\<lambda>q. product_pk q = req_product_id widget_request) (products widget_db) =
    Some \<lparr>product_pk = 1, product_name = ''Widget'', price_in_pence = 1999\<rparr>"
  by (simp add: widget_db_def widget_request_def)

lemma widget_catalog:
  "distinct (map product_pk (products widget_db))"
  "\<lparr>product_pk = 1, product_name = ''Widget'', price_in_pence = 1999\<rparr> \<in> set (products widget_db)"
  "product_pk \<lparr>product_pk = 1, product_name = ''Widget'', price_in_pence = 1999\<rparr> =
     req_product_id widget_request"
  "int32 (req_product_id widget_request)"
  by (simp_all add: widget_db_def widget_request_def int32_def)

lemma initiate_payment_out_of_range:
  "\<not> int32 (req_product_id intent_request) \<Longrightarrow>
   initiate_payment create db intent_request current_user = (Inl DataError, db)"
  by (simp add: initiate_payment_def fetch_one_product_def)

lemma initiate_payment_gateway_raises:
  assumes "fetch_one_product db (req_product_id intent_request) = Inr (Some p)"
    and "create (price_in_pence p) ''gbp''
           [(''user_id'', str_int (user_pk current_user)),
            (''product_id'', str_int (req_product_id intent_request))] = Inl e"
  shows "initiate_payment create db intent_request current_user =
     (Inl (case e of
             CardError m \<Rightarrow> HTTPException 400 m
           | StripeError m \<Rightarrow> HTTPException 400 (''Stripe error: '' @ m)
           | OtherException m \<Rightarrow> HTTPException 500 (''An unexpected error occurred: '' @ m)),
      db)"
  using assms by (simp add: initiate_payment_def split: stripe_exn.splits)

lemma initiate_payment_widget_raises:
  "initiate_payment (gateway_raises e) widget_db widget_request user_one =
     (Inl (case e of
             CardError m \<Rightarrow> HTTPException 400 m
           | StripeError m \<Rightarrow> HTTPException 400 (''Stripe error: '' @ m)
           | OtherException m \<Rightarrow> HTTPException 500 (''An unexpected error occurred: '' @ m)),
      widget_db)"
  by (rule initiate_payment_gateway_raises
        [where create = "gateway_raises e" and e = e, OF fetch_widget])
     (simp add: gateway_raises_def)

lemma initiate_payment_widget:
  "initiate_payment (gateway_returns ''pi_1'' ''cs_1'') widget_db widget_request user_one =
     (Inr \<lparr>client_secret = Some ''cs_1'', payment_intent_id = ''pi_1''\<rparr>, paid_db ''pending'')"
proof -
  have i: "insert_payment 1 ''1'' ''pi_1'' ''pending'' 1999 widget_db = (None, paid_db ''pending'')"
    by (simp add: insert_payment_def Let_def widget_db_def paid_db_def widget_payment_def)
  have r: "req_product_id widget_request = 1" "user_pk user_one = 1"
    by (simp_all add: widget_request_def user_one_def)
  have f: "fetch_one_product widget_db 1 =
      Inr (Some \<lparr>product_pk = 1, product_name = ''Widget'', price_in_pence = 1999\<rparr>)"
    using fetch_widget by (simp add: r)
  show ?thesis
    by (simp add: initiate_payment_def f Let_def gateway_returns_def r str_int_one i)
qed

text \<open>
  The unique constraint on the external id is kept by both handlers: a table with
  distinct external ids has distinct external ids afterwards.
\<close>

lemma update_payment_status_ids:
  "map stripe_payment_intent_id (payments (update_payment_status spid st db)) =
   map stripe_payment_intent_id (payments db)"
  by (simp add: update_payment_status_def comp_def cong: if_cong)

lemma stripe_webhook_keeps_distinct:
  assumes "distinct (map stripe_payment_intent_id (payments db))"
  shows "distinct (map stripe_payment_intent_id
           (payments (snd (stripe_webhook construct_event secret db req))))"
proof (cases "\<exists>ev. verifies_to construct_event secret req ev")
  case True
  then obtain ev where "verifies_to construct_event secret req ev" ..
  with assms show ?thesis
    by (simp add: stripe_webhook_verified update_payment_status_ids)
next
  case False
  with assms show ?thesis
    by (simp add: stripe_webhook_unverified)
qed

lemma initiate_payment_keeps_distinct:
  assumes "distinct (map stripe_payment_intent_id (payments db))"
  shows "distinct (map stripe_payment_intent_id
           (payments (snd (initiate_payment create db intent_request current_user))))"
  using assms
  by (auto simp: initiate_payment_def insert_payment_def Let_def list_ex_iff image_iff
           split: sum.splits option.splits stripe_exn.splits)

lemma update_payment_status_distinct:
  assumes d: "distinct (map stripe_payment_intent_id (payments db))"
    and i: "i < length (payments db)"
    and m: "stripe_payment_intent_id (payments db ! i) = spid"
  shows "update_payment_status spid st db =
         db\<lparr>payments := (payments db)[i := (payments db ! i)\<lparr>status := st\<rparr>]\<rparr>"
proof -
  let ?f = "\<lambda>r. if stripe_payment_intent_id r = spid then r\<lparr>status := st\<rparr> else r"
  have "map ?f (payments db) = (payments db)[i := (payments db ! i)\<lparr>status := st\<rparr>]"
  proof (rule nth_equalityI)
    show "length (map ?f (payments db)) =
          length ((payments db)[i := (payments db ! i)\<lparr>status := st\<rparr>])"
      by simp
  next
    fix j
    assume "j < length (map ?f (payments db))"
    then have j: "j < length (payments db)" by simp
    show "map ?f (payments db) ! j = (payments db)[i := (payments db ! i)\<lparr>status := st\<rparr>] ! j"
    proof (cases "j = i")
      case True
      with i m show ?thesis by simp
    next
      case False
      from d i j False
      have "map stripe_payment_intent_id (payments db) ! j \<noteq>
            map stripe_payment_intent_id (payments db) ! i"
        by (simp add: nth_eq_iff_index_eq del: nth_map)
      with i j m have "stripe_payment_intent_id (payments db ! j) \<noteq> spid"
        by simp
      with j False show ?thesis by simp
    qed
  qed
  then show ?thesis by (simp add: update_payment_status_def)
qed

section \<open>Webhook handling: rejections\<close>

text \<open>
  C10. A webhook request without the signature header (absent or empty) is answered
  with the 400 rejection \<^verbatim>\<open>Missing Stripe-Signature header\<close> and the database as it
  was, whatever the signing secret (the empty, unconfigured one included), the body
  and the verifier are: the header is checked first, and neither the secret nor the
  body is looked at.
\<close>

theorem webhook_missing_signature_first:
  "signature_missing req \<Longrightarrow>
   stripe_webhook construct_event secret db req =
     (Inl (HTTPException 400 ''Missing Stripe-Signature header''), db)"
  by (simp add: signature_missing_def stripe_webhook_def split: option.splits)

theorem webhook_missing_signature_first_witness:
  "signature_missing unsigned_request \<and>
   stripe_webhook (delivers ''payment_intent.succeeded'' ''pi_1'') [] (paid_db ''pending'')
       unsigned_request =
     (Inl (HTTPException 400 ''Missing Stripe-Signature header''), paid_db ''pending'')"
proof -
  have h: "signature_missing unsigned_request"
    by (simp add: signature_missing_def unsigned_request_def)
  from webhook_missing_signature_first [OF h] h show ?thesis by simp
qed

text \<open>
  C4, as the handler is written. A webhook request that fails verification is
  rejected with the database unchanged, whatever its body says, in the order of the
  handler's checks: without the signature header (absent or empty) 400
  \<^verbatim>\<open>Missing Stripe-Signature header\<close>, whatever the signing secret; with the header and
  an empty signing secret 500 \<^verbatim>\<open>Webhook secret not configured\<close>; with the header and a
  secret, 400 \<^verbatim>\<open>Invalid signature: ...\<close> when the verifier refuses the signature and
  400 \<^verbatim>\<open>Invalid payload: ...\<close> when it refuses the payload. With an empty secret every
  request is rejected, with 400 when the header is missing and with 500 otherwise, and
  none reaches the dispatch; and whenever the handler raises, the database is the one
  it was given.
\<close>

theorem webhook_rejects_before_mutation:
  "(signature_missing req \<longrightarrow>
        stripe_webhook construct_event secret db req =
          (Inl (HTTPException 400 ''Missing Stripe-Signature header''), db)) \<and>
     (map_of (headers req) ''stripe-signature'' = Some s \<and> s \<noteq> [] \<and> secret = [] \<longrightarrow>
        stripe_webhook construct_event secret db req =
          (Inl (HTTPException 500 ''Webhook secret not configured''), db)) \<and>
     (map_of (headers req) ''stripe-signature'' = Some s \<and> s \<noteq> [] \<and> secret \<noteq> [] \<and>
      construct_event (body req) s secret = Inl (SignatureVerificationError e) \<longrightarrow>
        stripe_webhook construct_event secret db req =
          (Inl (HTTPException 400 (''Invalid signature: '' @ e)), db)) \<and>
     (map_of (headers req) ''stripe-signature'' = Some s \<and> s \<noteq> [] \<and> secret \<noteq> [] \<and>
      construct_event (body req) s secret = Inl (ValueError e) \<longrightarrow>
        stripe_webhook construct_event secret db req =
          (Inl (HTTPException 400 (''Invalid payload: '' @ e)), db)) \<and>
     (secret = [] \<longrightarrow>
        stripe_webhook construct_event secret db req =
          (Inl (if signature_missing req
                then HTTPException 400 ''Missing Stripe-Signature header''
                else HTTPException 500 ''Webhook secret not configured''), db)) \<and>
     (isl (fst (stripe_webhook construct_event secret db req)) \<longrightarrow>
        snd (stripe_webhook construct_event secret db req) = db)"
  by (auto simp: signature_missing_def stripe_webhook_def
           split: option.splits sum.splits construct_exn.splits)

theorem webhook_rejects_before_mutation_witness:
  "stripe_webhook (delivers ''payment_intent.succeeded'' ''pi_1'') ''whsec_1''
       (paid_db ''pending'') unsigned_request =
     (Inl (HTTPException 400 ''Missing Stripe-Signature header''), paid_db ''pending'') \<and>
   stripe_webhook (delivers ''payment_intent.succeeded'' ''pi_1'') []
       (paid_db ''pending'') signed_request =
     (Inl (HTTPException 500 ''Webhook secret not configured''), paid_db ''pending'') \<and>
   stripe_webhook (rejects (SignatureVerificationError ''No signatures found'')) ''whsec_1''
       (paid_db ''pending'') signed_request =
     (Inl (HTTPException 400 ''Invalid signature: No signatures found''), paid_db ''pending'') \<and>
   stripe_webhook (rejects (ValueError ''Expecting value'')) ''whsec_1''
       (paid_db ''pending'') signed_request =
     (Inl (HTTPException 400 ''Invalid payload: Expecting value''), paid_db ''pending'') \<and>
   isl (fst (stripe_webhook (rejects (ValueError ''Expecting value'')) ''whsec_1''
       (paid_db ''pending'') signed_request)) \<and>
   signature_missing unsigned_request \<and>
   stripe_webhook (rejects (ValueError ''Expecting value'')) [] (paid_db ''pending'')
       unsigned_request =
     (Inl (HTTPException 400 ''Missing Stripe-Signature header''), paid_db ''pending'')"
proof -
  have a: "signature_missing unsigned_request"
    by (simp add: signature_missing_def unsigned_request_def)
  have b: "map_of (headers signed_request) ''stripe-signature'' = Some ''t=1,v1=ab''"
    by (simp add: signed_request_def)
  have c: "rejects x (body signed_request) ''t=1,v1=ab'' ''whsec_1'' = Inl x" for x
    by (simp add: rejects_def)
  note w = webhook_rejects_before_mutation
  from a w [where req = unsigned_request
              and construct_event = "delivers ''payment_intent.succeeded'' ''pi_1''"
              and secret = "''whsec_1''" and db = "paid_db ''pending''"]
  have 1: "stripe_webhook (delivers ''payment_intent.succeeded'' ''pi_1'') ''whsec_1''
       (paid_db ''pending'') unsigned_request =
     (Inl (HTTPException 400 ''Missing Stripe-Signature header''), paid_db ''pending'')"
    by blast
  from b w [where req = signed_request
              and construct_event = "delivers ''payment_intent.succeeded'' ''pi_1''"
              and secret = "[]" and db = "paid_db ''pending''" and s = "''t=1,v1=ab''"]
  have 2: "stripe_webhook (delivers ''payment_intent.succeeded'' ''pi_1'') []
       (paid_db ''pending'') signed_request =
     (Inl (HTTPException 500 ''Webhook secret not configured''), paid_db ''pending'')"
    by simp
  from b c w [where req = signed_request
              and construct_event = "rejects (SignatureVerificationError ''No signatures found'')"
              and secret = "''whsec_1''" and db = "paid_db ''pending''"
              and s = "''t=1,v1=ab''" and e = "''No signatures found''"]
  have 3: "stripe_webhook (rejects (SignatureVerificationError ''No signatures found''))
       ''whsec_1'' (paid_db ''pending'') signed_request =
     (Inl (HTTPException 400 ''Invalid signature: No signatures found''), paid_db ''pending'')"
    by simp
  from b c w [where req = signed_request
              and construct_event = "rejects (ValueError ''Expecting value'')"
              and secret = "''whsec_1''" and db = "paid_db ''pending''"
              and s = "''t=1,v1=ab''" and e = "''Expecting value''"]
  have 4: "stripe_webhook (rejects (ValueError ''Expecting value'')) ''whsec_1''
       (paid_db ''pending'') signed_request =
     (Inl (HTTPException 400 ''Invalid payload: Expecting value''), paid_db ''pending'')"
    by simp
  from a w [where req = unsigned_request
              and construct_event = "rejects (ValueError ''Expecting value'')"
              and secret = "[]" and db = "paid_db ''pending''"]
  have 5: "stripe_webhook (rejects (ValueError ''Expecting value'')) [] (paid_db ''pending'')
       unsigned_request =
     (Inl (HTTPException 400 ''Missing Stripe-Signature header''), paid_db ''pending'')"
    by simp
  from 1 2 3 4 5 a show ?thesis by simp
qed

text \<open>
  C4 as stated fails in its last part: with the signing secret unconfigured, a request
  without the signature header is answered with the 400 of the missing header, not
  with the 500 of the misconfiguration. It is rejected all the same, and the database
  is unchanged.
\<close>

theorem webhook_unconfigured_without_header:
  "stripe_webhook (delivers ''payment_intent.succeeded'' ''pi_1'') [] (paid_db ''pending'')
       \<lparr>body = ''{}'', headers = []\<rparr> =
     (Inl (HTTPException 400 ''Missing Stripe-Signature header''), paid_db ''pending'') \<and>
   status_code (HTTPException 400 ''Missing Stripe-Signature header'') \<noteq> 500 \<and>
   fst (stripe_webhook (delivers ''payment_intent.succeeded'' ''pi_1'') [] (paid_db ''pending'')
       \<lparr>body = ''{}'', headers = []\<rparr>) \<noteq>
     Inl (HTTPException 500 ''Webhook secret not configured'')"
  by (simp add: stripe_webhook_def)

section \<open>Webhook handling: acknowledged events\<close>

text \<open>
  C8. A signature-valid event whose type is neither \<^verbatim>\<open>payment_intent.succeeded\<close> nor
  \<^verbatim>\<open>payment_intent.payment_failed\<close> is acknowledged with \<^verbatim>\<open>{"status": "success"}\<close>
  and the database is not touched.
\<close>

theorem webhook_unhandled_type_ack:
  assumes "verifies_to construct_event secret req ev"
    and "event_type ev \<noteq> ''payment_intent.succeeded''"
    and "event_type ev \<noteq> ''payment_intent.payment_failed''"
  shows "stripe_webhook construct_event secret db req = (Inr success_ack, db)"
  using assms(2,3) by (simp add: stripe_webhook_verified [OF assms(1)])

theorem webhook_unhandled_type_ack_witness:
  "verifies_to (delivers ''charge.refunded'' ''pi_1'') ''whsec_1'' signed_request
     \<lparr>event_type = ''charge.refunded'', data_object_id = ''pi_1''\<rparr> \<and>
   stripe_webhook (delivers ''charge.refunded'' ''pi_1'') ''whsec_1'' (paid_db ''pending'')
       signed_request = (Inr success_ack, paid_db ''pending'')"
proof -
  have v: "verifies_to (delivers ''charge.refunded'' ''pi_1'') ''whsec_1'' signed_request
     \<lparr>event_type = ''charge.refunded'', data_object_id = ''pi_1''\<rparr>"
    by (simp add: verifies_to_delivers)
  from webhook_unhandled_type_ack [OF v] v show ?thesis by simp
qed

text \<open>
  C6. A signature-valid succeeded or failed event whose external id matches no stored
  payment is acknowledged with \<^verbatim>\<open>{"status": "success"}\<close> and the database is
  unchanged.
\<close>

theorem webhook_unknown_id_ack:
  assumes "verifies_to construct_event secret req ev"
    and "event_type ev = ''payment_intent.succeeded'' \<or>
         event_type ev = ''payment_intent.payment_failed''"
    and "\<not> list_ex (\<lambda>r. stripe_payment_intent_id r = data_object_id ev) (payments db)"
  shows "stripe_webhook construct_event secret db req = (Inr success_ack, db)"
  using assms(2)
  by (auto simp: stripe_webhook_verified [OF assms(1)] update_payment_status_unknown [OF assms(3)])

theorem webhook_unknown_id_ack_witness:
  "verifies_to (delivers ''payment_intent.payment_failed'' ''pi_9'') ''whsec_1'' signed_request
     \<lparr>event_type = ''payment_intent.payment_failed'', data_object_id = ''pi_9''\<rparr> \<and>
   \<not> list_ex (\<lambda>r. stripe_payment_intent_id r = ''pi_9'') (payments (paid_db ''pending'')) \<and>
   stripe_webhook (delivers ''payment_intent.payment_failed'' ''pi_9'') ''whsec_1''
       (paid_db ''pending'') signed_request = (Inr success_ack, paid_db ''pending'')"
proof -
  let ?ev = "\<lparr>event_type = ''payment_intent.payment_failed'', data_object_id = ''pi_9''\<rparr>"
  have v: "verifies_to (delivers ''payment_intent.payment_failed'' ''pi_9'') ''whsec_1''
             signed_request ?ev"
    by (simp add: verifies_to_delivers)
  have t: "event_type ?ev = ''payment_intent.succeeded'' \<or>
           event_type ?ev = ''payment_intent.payment_failed''"
    by simp
  have u: "\<not> list_ex (\<lambda>r. stripe_payment_intent_id r = data_object_id ?ev)
               (payments (paid_db ''pending''))"
    by (simp add: paid_db_def widget_payment_def)
  from webhook_unknown_id_ack [OF v t u] v u show ?thesis by simp
qed

section \<open>Webhook handling: status updates\<close>

text \<open>
  C5. Handling the same signature-valid \<^verbatim>\<open>payment_intent.succeeded\<close> event twice gives
  the database that handling it once gives: both deliveries are acknowledged, the
  second changes nothing, the table keeps its length and its external ids (no row is
  added), and every row with the event's external id that was \<^verbatim>\<open>pending\<close> is
  \<^verbatim>\<open>succeeded\<close> after the first delivery and after the second.
\<close>

theorem webhook_succeeded_twice:
  assumes "verifies_to construct_event secret req ev"
    and "event_type ev = ''payment_intent.succeeded''"
    and "stripe_webhook construct_event secret db req = (res1, db1)"
    and "stripe_webhook construct_event secret db1 req = (res2, db2)"
  shows "res1 = Inr success_ack \<and> res2 = Inr success_ack \<and> db2 = db1 \<and>
         length (payments db1) = length (payments db) \<and>
         map stripe_payment_intent_id (payments db1) =
           map stripe_payment_intent_id (payments db) \<and>
         (\<forall>i < length (payments db).
            stripe_payment_intent_id (payments db ! i) = data_object_id ev \<and>
            status (payments db ! i) = ''pending'' \<longrightarrow>
              status (payments db1 ! i) = ''succeeded'' \<and>
              status (payments db2 ! i) = ''succeeded'')"
proof -
  let ?u = "update_payment_status (data_object_id ev) ''succeeded''"
  from assms(2,3) have 1: "res1 = Inr success_ack" "db1 = ?u db"
    by (simp_all add: stripe_webhook_verified [OF assms(1)])
  from assms(2,4) have 2: "res2 = Inr success_ack" "db2 = ?u db1"
    by (simp_all add: stripe_webhook_verified [OF assms(1)])
  from 1 2 have same: "db2 = db1"
    by (simp add: update_payment_status_twice)
  have ids: "map stripe_payment_intent_id (payments (?u db)) =
             map stripe_payment_intent_id (payments db)"
    by (simp add: update_payment_status_def comp_def cong: if_cong)
  have st: "status (payments (?u db) ! i) = ''succeeded''"
    if "i < length (payments db)"
      and "stripe_payment_intent_id (payments db ! i) = data_object_id ev" for i
    using that by (simp add: update_payment_status_nth)
  from 1 2 same ids st show ?thesis
    by (simp add: update_payment_status_fields)
qed

theorem webhook_succeeded_twice_witness:
  "verifies_to (delivers ''payment_intent.succeeded'' ''pi_1'') ''whsec_1'' signed_request
     \<lparr>event_type = ''payment_intent.succeeded'', data_object_id = ''pi_1''\<rparr> \<and>
   stripe_webhook (delivers ''payment_intent.succeeded'' ''pi_1'') ''whsec_1''
       (paid_db ''pending'') signed_request = (Inr success_ack, paid_db ''succeeded'') \<and>
   stripe_webhook (delivers ''payment_intent.succeeded'' ''pi_1'') ''whsec_1''
       (paid_db ''succeeded'') signed_request = (Inr success_ack, paid_db ''succeeded'') \<and>
   length (payments (paid_db ''succeeded'')) = length (payments (paid_db ''pending'')) \<and>
   status (payments (paid_db ''pending'') ! 0) = ''pending'' \<and>
   status (payments (paid_db ''succeeded'') ! 0) = ''succeeded''"
proof -
  let ?ev = "\<lparr>event_type = ''payment_intent.succeeded'', data_object_id = ''pi_1''\<rparr>"
  let ?ce = "delivers ''payment_intent.succeeded'' ''pi_1''"
  have v: "verifies_to ?ce ''whsec_1'' signed_request ?ev"
    by (simp add: verifies_to_delivers)
  have t: "event_type ?ev = ''payment_intent.succeeded''"
    by simp
  have a: "stripe_webhook ?ce ''whsec_1'' (paid_db ''pending'') signed_request =
             (Inr success_ack, paid_db ''succeeded'')"
    by (simp add: stripe_webhook_delivers update_paid_db)
  have b: "stripe_webhook ?ce ''whsec_1'' (paid_db ''succeeded'') signed_request =
             (Inr success_ack, paid_db ''succeeded'')"
    by (simp add: stripe_webhook_delivers update_paid_db)
  have p: "status (payments (paid_db ''pending'') ! 0) = ''pending''"
    by (simp add: paid_db_def widget_payment_def)
  from webhook_succeeded_twice [OF v t a b] v a b p show ?thesis
    by (simp add: paid_db_def widget_payment_def)
qed

text \<open>
  C9. Whatever the webhook request, the handler leaves the products and the key
  sequence alone and neither adds nor removes a payment row; each row afterwards is
  the row before with at most its \<^verbatim>\<open>status\<close> replaced, so the primary key, the product
  reference, the user reference, the external id and \<^verbatim>\<open>amount_in_pence\<close> of every row
  are what they were. A row whose external id is not the event's is unchanged, and a
  request that does not verify changes nothing.
\<close>

theorem webhook_changes_status_only:
  assumes "stripe_webhook construct_event secret db req = (res, db')"
  shows "products db' = products db \<and> payments_id_seq db' = payments_id_seq db \<and>
         length (payments db') = length (payments db) \<and>
         list_all2 (\<lambda>r r'. r' = r\<lparr>status := status r'\<rparr>) (payments db) (payments db') \<and>
         map payment_pk (payments db') = map payment_pk (payments db) \<and>
         map product_id (payments db') = map product_id (payments db) \<and>
         map user_id (payments db') = map user_id (payments db) \<and>
         map stripe_payment_intent_id (payments db') =
           map stripe_payment_intent_id (payments db) \<and>
         map amount_in_pence (payments db') = map amount_in_pence (payments db) \<and>
         (\<forall>ev. verifies_to construct_event secret req ev \<longrightarrow>
            list_all2 (\<lambda>r r'. stripe_payment_intent_id r \<noteq> data_object_id ev \<longrightarrow> r' = r)
              (payments db) (payments db')) \<and>
         ((\<forall>ev. \<not> verifies_to construct_event secret req ev) \<longrightarrow> db' = db)"
proof -
  have frame: "list_all2 (\<lambda>r r'. r' = r\<lparr>status := status r'\<rparr>) (payments db) (payments db')"
  proof (cases "\<exists>ev. verifies_to construct_event secret req ev")
    case True
    then obtain ev where v: "verifies_to construct_event secret req ev" ..
    from assms have "db' = db \<or> (\<exists>spid st. db' = update_payment_status spid st db)"
      by (auto simp: stripe_webhook_verified [OF v] split: if_splits)
    then show ?thesis
    proof
      assume "db' = db"
      then show ?thesis by (simp add: list_all2_same)
    next
      assume "\<exists>spid st. db' = update_payment_status spid st db"
      then obtain spid st where "db' = update_payment_status spid st db" by blast
      with update_payment_status_frame [of spid db st] show ?thesis
        by (auto elim: list_all2_mono)
    qed
  next
    case False
    with stripe_webhook_unverified [of construct_event secret req db] assms
    have "db' = db" by simp
    then show ?thesis by (simp add: list_all2_same)
  qed
  have len: "length (payments db') = length (payments db)"
    using frame by (simp add: list_all2_lengthD)
  have nth: "payments db' ! i = (payments db ! i)\<lparr>status := status (payments db' ! i)\<rparr>"
    if "i < length (payments db)" for i
    using frame that by (simp add: list_all2_conv_all_nth)
  note keeps = status_update_keeps [OF nth]
  have pk: "map payment_pk (payments db') = map payment_pk (payments db)"
    by (rule nth_equalityI) (simp_all add: len keeps)
  have pr: "map product_id (payments db') = map product_id (payments db)"
    by (rule nth_equalityI) (simp_all add: len keeps)
  have us: "map user_id (payments db') = map user_id (payments db)"
    by (rule nth_equalityI) (simp_all add: len keeps)
  have ex: "map stripe_payment_intent_id (payments db') =
            map stripe_payment_intent_id (payments db)"
    by (rule nth_equalityI) (simp_all add: len keeps)
  have am: "map amount_in_pence (payments db') = map amount_in_pence (payments db)"
    by (rule nth_equalityI) (simp_all add: len keeps)
  have other: "products db' = products db \<and> payments_id_seq db' = payments_id_seq db"
  proof (cases "\<exists>ev. verifies_to construct_event secret req ev")
    case True
    then obtain ev where v: "verifies_to construct_event secret req ev" ..
    from assms show ?thesis
      by (auto simp: stripe_webhook_verified [OF v] update_payment_status_fields
               split: if_splits)
  next
    case False
    with stripe_webhook_unverified [of construct_event secret req db] assms
    show ?thesis by simp
  qed
  have matched: "list_all2 (\<lambda>r r'. stripe_payment_intent_id r \<noteq> data_object_id ev \<longrightarrow> r' = r)
                   (payments db) (payments db')"
    if v: "verifies_to construct_event secret req ev" for ev
  proof -
    from assms have "db' = db \<or> (\<exists>st. db' = update_payment_status (data_object_id ev) st db)"
      by (auto simp: stripe_webhook_verified [OF v] split: if_splits)
    then show ?thesis
    proof
      assume "db' = db"
      then show ?thesis by (simp add: list_all2_same)
    next
      assume "\<exists>st. db' = update_payment_status (data_object_id ev) st db"
      then obtain st where "db' = update_payment_status (data_object_id ev) st db" by blast
      with update_payment_status_frame [of "data_object_id ev" db st] show ?thesis
        by (auto elim: list_all2_mono)
    qed
  qed
  have unverified: "db' = db" if "\<forall>ev. \<not> verifies_to construct_event secret req ev"
    using stripe_webhook_unverified [OF that, of db] assms by simp
  from frame len pk pr us ex am other matched unverified show ?thesis
    by blast
qed

theorem webhook_changes_status_only_witness:
  "stripe_webhook (delivers ''payment_intent.succeeded'' ''pi_1'') ''whsec_1''
       (paid_db ''pending'') signed_request = (Inr success_ack, paid_db ''succeeded'') \<and>
   verifies_to (delivers ''payment_intent.succeeded'' ''pi_1'') ''whsec_1'' signed_request
     \<lparr>event_type = ''payment_intent.succeeded'', data_object_id = ''pi_1''\<rparr> \<and>
   products (paid_db ''succeeded'') = products (paid_db ''pending'') \<and>
   length (payments (paid_db ''succeeded'')) = length (payments (paid_db ''pending'')) \<and>
   map amount_in_pence (payments (paid_db ''succeeded'')) =
     map amount_in_pence (payments (paid_db ''pending'')) \<and>
   map stripe_payment_intent_id (payments (paid_db ''succeeded'')) =
     map stripe_payment_intent_id (payments (paid_db ''pending'')) \<and>
   list_all2 (\<lambda>r r'. stripe_payment_intent_id r \<noteq> ''pi_1'' \<longrightarrow> r' = r)
     (payments (paid_db ''pending'')) (payments (paid_db ''succeeded'')) \<and>
   (\<forall>ev. \<not> verifies_to (delivers ''payment_intent.succeeded'' ''pi_1'') ''whsec_1''
           unsigned_request ev) \<and>
   snd (stripe_webhook (delivers ''payment_intent.succeeded'' ''pi_1'') ''whsec_1''
       (paid_db ''pending'') unsigned_request) = paid_db ''pending''"
proof -
  let ?ev = "\<lparr>event_type = ''payment_intent.succeeded'', data_object_id = ''pi_1''\<rparr>"
  let ?ce = "delivers ''payment_intent.succeeded'' ''pi_1''"
  have v: "verifies_to ?ce ''whsec_1'' signed_request ?ev"
    by (simp add: verifies_to_delivers)
  have a: "stripe_webhook ?ce ''whsec_1'' (paid_db ''pending'') signed_request =
             (Inr success_ack, paid_db ''succeeded'')"
    by (simp add: stripe_webhook_delivers update_paid_db)
  have n: "\<forall>ev. \<not> verifies_to ?ce ''whsec_1'' unsigned_request ev"
    by (simp add: verifies_to_def unsigned_request_def)
  obtain res db' where
    b: "stripe_webhook ?ce ''whsec_1'' (paid_db ''pending'') unsigned_request = (res, db')"
    by (cases "stripe_webhook ?ce ''whsec_1'' (paid_db ''pending'') unsigned_request")
  from webhook_changes_status_only [OF b] n have "db' = paid_db ''pending''"
    by blast
  with b have u: "snd (stripe_webhook ?ce ''whsec_1'' (paid_db ''pending'') unsigned_request) =
                    paid_db ''pending''"
    by simp
  from webhook_changes_status_only [OF a] v
  have "list_all2 (\<lambda>r r'. stripe_payment_intent_id r \<noteq> data_object_id ?ev \<longrightarrow> r' = r)
          (payments (paid_db ''pending'')) (payments (paid_db ''succeeded''))"
    by blast
  with webhook_changes_status_only [OF a] a v n u show ?thesis
    by simp
qed

text \<open>
  C1, as the handler is written. The \<^verbatim>\<open>UPDATE\<close> of the handler names the external id
  only and has no condition on the current status. In a table with distinct external
  ids (the unique constraint), take the record a signature-valid event references. The
  request is acknowledged, and the database afterwards is the database before with
  the status of that one record set to \<^verbatim>\<open>succeeded\<close> by the
  \<^verbatim>\<open>payment_intent.succeeded\<close> event and to \<^verbatim>\<open>failed\<close> by the
  \<^verbatim>\<open>payment_intent.payment_failed\<close> event, whatever the status was; an event of any
  other type leaves the database unchanged. So for a record already \<^verbatim>\<open>succeeded\<close>
  every event but \<^verbatim>\<open>payment_intent.payment_failed\<close> produces no storage mutation, and
  for a record already \<^verbatim>\<open>failed\<close> every event but \<^verbatim>\<open>payment_intent.succeeded\<close>; the
  event of the other terminal type overwrites the status: \<^verbatim>\<open>failed\<close> after
  \<^verbatim>\<open>succeeded\<close> leaves \<^verbatim>\<open>failed\<close>, and \<^verbatim>\<open>succeeded\<close> after \<^verbatim>\<open>failed\<close> leaves
  \<^verbatim>\<open>succeeded\<close>.
\<close>

theorem webhook_status_written:
  assumes "verifies_to construct_event secret req ev"
    and "distinct (map stripe_payment_intent_id (payments db))"
    and "i < length (payments db)" and "r = payments db ! i"
    and "stripe_payment_intent_id r = data_object_id ev"
    and "stripe_webhook construct_event secret db req = (res, db')"
  shows "res = Inr success_ack \<and>
         (event_type ev = ''payment_intent.succeeded'' \<longrightarrow>
            db' = db\<lparr>payments := (payments db)[i := r\<lparr>status := ''succeeded''\<rparr>]\<rparr>) \<and>
         (event_type ev = ''payment_intent.payment_failed'' \<longrightarrow>
            db' = db\<lparr>payments := (payments db)[i := r\<lparr>status := ''failed''\<rparr>]\<rparr>) \<and>
         (event_type ev \<noteq> ''payment_intent.succeeded'' \<and>
          event_type ev \<noteq> ''payment_intent.payment_failed'' \<longrightarrow> db' = db) \<and>
         (status r = ''succeeded'' \<and> event_type ev \<noteq> ''payment_intent.payment_failed''
            \<longrightarrow> db' = db) \<and>
         (status r = ''failed'' \<and> event_type ev \<noteq> ''payment_intent.succeeded''
            \<longrightarrow> db' = db) \<and>
         (status r = ''succeeded'' \<and> event_type ev = ''payment_intent.payment_failed''
            \<longrightarrow> status (payments db' ! i) = ''failed'' \<and> db' \<noteq> db) \<and>
         (status r = ''failed'' \<and> event_type ev = ''payment_intent.succeeded''
            \<longrightarrow> status (payments db' ! i) = ''succeeded'' \<and> db' \<noteq> db)"
proof -
  note v = assms(1) and d = assms(2) and i = assms(3) and r = assms(4)
    and m = assms(5) and w = assms(6)
  from m r have m': "stripe_payment_intent_id (payments db ! i) = data_object_id ev"
    by simp
  have upd: "update_payment_status (data_object_id ev) st db =
             db\<lparr>payments := (payments db)[i := r\<lparr>status := st\<rparr>]\<rparr>" for st
    using update_payment_status_distinct [OF d i m'] r by simp
  have same: "db\<lparr>payments := (payments db)[i := r\<lparr>status := st\<rparr>]\<rparr> = db"
    if "status r = st" for st
  proof -
    from that have "r\<lparr>status := st\<rparr> = r" by simp
    with r show ?thesis by simp
  qed
  have differs: "status (payments (db\<lparr>payments := (payments db)[i := r\<lparr>status := st\<rparr>]\<rparr>) ! i) = st \<and>
                 db\<lparr>payments := (payments db)[i := r\<lparr>status := st\<rparr>]\<rparr> \<noteq> db"
    if "status r \<noteq> st" for st
  proof -
    let ?db = "db\<lparr>payments := (payments db)[i := r\<lparr>status := st\<rparr>]\<rparr>"
    from i have a: "status (payments ?db ! i) = st" by simp
    from r that have "status (payments db ! i) \<noteq> st" by simp
    with a have "?db \<noteq> db" by metis
    with a show ?thesis by simp
  qed
  from w have ack: "res = Inr success_ack"
    by (simp add: stripe_webhook_verified [OF v])
  consider (s) "event_type ev = ''payment_intent.succeeded''"
    | (f) "event_type ev = ''payment_intent.payment_failed''"
    | (o) "event_type ev \<noteq> ''payment_intent.succeeded''"
          "event_type ev \<noteq> ''payment_intent.payment_failed''"
    by blast
  then show ?thesis
  proof cases
    case s
    with w have e: "db' = db\<lparr>payments := (payments db)[i := r\<lparr>status := ''succeeded''\<rparr>]\<rparr>"
      by (simp add: stripe_webhook_verified [OF v] upd)
    have 1: "status r = ''succeeded'' \<longrightarrow> db' = db"
      using e same [of "''succeeded''"] by simp
    have 2: "status r = ''failed'' \<longrightarrow> status (payments db' ! i) = ''succeeded'' \<and> db' \<noteq> db"
      using e differs [of "''succeeded''"] by simp
    from ack s e 1 2 show ?thesis by simp
  next
    case f
    with w have e: "db' = db\<lparr>payments := (payments db)[i := r\<lparr>status := ''failed''\<rparr>]\<rparr>"
      by (simp add: stripe_webhook_verified [OF v] upd)
    have 1: "status r = ''failed'' \<longrightarrow> db' = db"
      using e same [of "''failed''"] by simp
    have 2: "status r = ''succeeded'' \<longrightarrow> status (payments db' ! i) = ''failed'' \<and> db' \<noteq> db"
      using e differs [of "''failed''"] by simp
    from ack f e 1 2 show ?thesis by simp
  next
    case o
    with w have "db' = db"
      by (simp add: stripe_webhook_verified [OF v])
    with ack o show ?thesis by simp
  qed
qed

theorem webhook_status_written_witness:
  "verifies_to (delivers ''payment_intent.payment_failed'' ''pi_1'') ''whsec_1'' signed_request
     \<lparr>event_type = ''payment_intent.payment_failed'', data_object_id = ''pi_1''\<rparr> \<and>
   distinct (map stripe_payment_intent_id (payments (paid_db ''failed''))) \<and>
   (0::nat) < length (payments (paid_db ''failed'')) \<and>
   payments (paid_db ''failed'') ! 0 = widget_payment ''failed'' \<and>
   stripe_payment_intent_id (widget_payment ''failed'') = ''pi_1'' \<and>
   status (widget_payment ''failed'') = ''failed'' \<and>
   stripe_webhook (delivers ''payment_intent.payment_failed'' ''pi_1'') ''whsec_1''
       (paid_db ''failed'') signed_request = (Inr success_ack, paid_db ''failed'') \<and>
   paid_db ''failed'' =
     (paid_db ''failed'')\<lparr>payments :=
        (payments (paid_db ''failed''))[0 := (widget_payment ''failed'')\<lparr>status := ''failed''\<rparr>]\<rparr>"
proof -
  let ?ev = "\<lparr>event_type = ''payment_intent.payment_failed'', data_object_id = ''pi_1''\<rparr>"
  let ?ce = "delivers ''payment_intent.payment_failed'' ''pi_1''"
  have v: "verifies_to ?ce ''whsec_1'' signed_request ?ev"
    by (simp add: verifies_to_delivers)
  have d: "distinct (map stripe_payment_intent_id (payments (paid_db ''failed'')))"
    by (simp add: paid_db_def)
  have i: "0 < length (payments (paid_db ''failed''))"
    by (simp add: paid_db_def)
  have r: "widget_payment ''failed'' = payments (paid_db ''failed'') ! 0"
    by (simp add: paid_db_def)
  have m: "stripe_payment_intent_id (widget_payment ''failed'') = data_object_id ?ev"
    by (simp add: widget_payment_def)
  have s: "status (widget_payment ''failed'') = ''failed''"
    by (simp add: widget_payment_def)
  have a: "stripe_webhook ?ce ''whsec_1'' (paid_db ''failed'') signed_request =
             (Inr success_ack, paid_db ''failed'')"
    by (simp add: stripe_webhook_delivers update_paid_db)
  from webhook_status_written [OF v d i r m a] v d i r m s a show ?thesis
    by simp
qed

text \<open>
  C1 as stated fails: the pending payment \<^verbatim>\<open>pi_1\<close> becomes \<^verbatim>\<open>succeeded\<close> by the
  succeeded webhook, and the failed webhook delivered afterwards for the same external
  id turns it into \<^verbatim>\<open>failed\<close>.
\<close>

theorem webhook_failed_after_succeeded:
  "stripe_webhook (delivers ''payment_intent.succeeded'' ''pi_1'') ''whsec_1''
       (paid_db ''pending'') signed_request = (Inr success_ack, paid_db ''succeeded'') \<and>
   map status (payments (paid_db ''succeeded'')) = [''succeeded''] \<and>
   stripe_webhook (delivers ''payment_intent.payment_failed'' ''pi_1'') ''whsec_1''
       (paid_db ''succeeded'') signed_request = (Inr success_ack, paid_db ''failed'') \<and>
   map status (payments (paid_db ''failed'')) = [''failed''] \<and>
   paid_db ''failed'' \<noteq> paid_db ''succeeded''"
  by (simp add: stripe_webhook_delivers update_paid_db)
     (simp add: paid_db_def widget_payment_def widget_db_def)

section \<open>Creating a payment intent: results\<close>

text \<open>
  C2. Let the catalog (with distinct product keys, the primary key) hold the product
  \<open>p\<close> under the id of the request. When \<^verbatim>\<open>initiate_payment\<close> returns a response, the
  gateway was called with the price of \<open>p\<close>, \<^verbatim>\<open>gbp\<close> and the user and product ids, and
  returned the intent whose id and client secret are the response; the payments table
  afterwards is the table before followed by exactly one new row, with status
  \<^verbatim>\<open>pending\<close>, amount the price of \<open>p\<close>, the intent's id as external id, the product
  of the request and the user's id; the products are unchanged.
\<close>

theorem initiate_payment_inserts_pending:
  assumes "distinct (map product_pk (products db))"
    and "p \<in> set (products db)"
    and "product_pk p = req_product_id intent_request"
    and "initiate_payment create db intent_request current_user = (Inr resp, db')"
  shows "create (price_in_pence p) ''gbp''
           [(''user_id'', str_int (user_pk current_user)),
            (''product_id'', str_int (req_product_id intent_request))] =
           Inr \<lparr>pi_id = payment_intent_id resp, pi_client_secret = client_secret resp\<rparr> \<and>
         payments db' = payments db @
           [\<lparr>payment_pk = payments_id_seq db, product_id = req_product_id intent_request,
             user_id = str_int (user_pk current_user),
             stripe_payment_intent_id = payment_intent_id resp,
             status = ''pending'', amount_in_pence = price_in_pence p\<rparr>] \<and>
         length (payments db') = length (payments db) + 1 \<and>
         products db' = products db"
proof -
  let ?md = "[(''user_id'', str_int (user_pk current_user)),
              (''product_id'', str_int (req_product_id intent_request))]"
  have range: "int32 (req_product_id intent_request)"
  proof (rule ccontr)
    assume "\<not> int32 (req_product_id intent_request)"
    from initiate_payment_out_of_range [OF this, of create db current_user] assms(4)
    show False by simp
  qed
  from fetch_one_product_present [OF assms(1,2,3) range]
  have f: "fetch_one_product db (req_product_id intent_request) = Inr (Some p)" .
  from assms(4) f obtain intent where c: "create (price_in_pence p) ''gbp'' ?md = Inr intent"
    by (cases "create (price_in_pence p) ''gbp'' ?md")
       (auto simp: initiate_payment_def split: stripe_exn.splits)
  from assms(4) f c have
    i: "insert_payment (req_product_id intent_request) (str_int (user_pk current_user))
          (pi_id intent) ''pending'' (price_in_pence p) db = (None, db')"
    and r: "resp = \<lparr>client_secret = pi_client_secret intent, payment_intent_id = pi_id intent\<rparr>"
    by (auto simp: initiate_payment_def split: prod.splits option.splits)
  from r have "intent = \<lparr>pi_id = payment_intent_id resp, pi_client_secret = client_secret resp\<rparr>"
    by simp
  with c have 1: "create (price_in_pence p) ''gbp'' ?md =
      Inr \<lparr>pi_id = payment_intent_id resp, pi_client_secret = client_secret resp\<rparr>"
    by simp
  from i r have 2: "payments db' = payments db @
           [\<lparr>payment_pk = payments_id_seq db, product_id = req_product_id intent_request,
             user_id = str_int (user_pk current_user),
             stripe_payment_intent_id = payment_intent_id resp,
             status = ''pending'', amount_in_pence = price_in_pence p\<rparr>]"
    and 3: "products db' = products db"
    by (auto simp: insert_payment_def Let_def split: if_splits)
  from 1 2 3 show ?thesis by simp
qed

theorem initiate_payment_inserts_pending_witness:
  "distinct (map product_pk (products widget_db)) \<and>
   \<lparr>product_pk = 1, product_name = ''Widget'', price_in_pence = 1999\<rparr> \<in> set (products widget_db) \<and>
   product_pk \<lparr>product_pk = 1, product_name = ''Widget'', price_in_pence = 1999\<rparr> =
     req_product_id widget_request \<and>
   initiate_payment (gateway_returns ''pi_1'' ''cs_1'') widget_db widget_request user_one =
     (Inr \<lparr>client_secret = Some ''cs_1'', payment_intent_id = ''pi_1''\<rparr>, paid_db ''pending'') \<and>
   payments (paid_db ''pending'') = payments widget_db @
     [\<lparr>payment_pk = 1, product_id = 1, user_id = ''1'', stripe_payment_intent_id = ''pi_1'',
       status = ''pending'', amount_in_pence = 1999\<rparr>] \<and>
   length (payments (paid_db ''pending'')) = length (payments widget_db) + 1"
  using initiate_payment_inserts_pending
      [where create = "gateway_returns ''pi_1'' ''cs_1''",
       OF widget_catalog(1,2,3) initiate_payment_widget]
    widget_catalog(1,2,3) initiate_payment_widget
  by (simp add: str_int_one user_one_def widget_request_def widget_db_def)

text \<open>
  C3. When the catalog's row for the product of the request is \<open>p\<close> and the gateway
  call raises (a card error, another Stripe error or any other exception),
  \<^verbatim>\<open>initiate_payment\<close> raises and the database afterwards is the database before: no
  payment row is inserted.
\<close>

theorem initiate_payment_gateway_failure:
  assumes "find (\<lambda>q. product_pk q = req_product_id intent_request) (products db) = Some p"
    and "create (price_in_pence p) ''gbp''
           [(''user_id'', str_int (user_pk current_user)),
            (''product_id'', str_int (req_product_id intent_request))] = Inl e"
  shows "isl (fst (initiate_payment create db intent_request current_user)) \<and>
         snd (initiate_payment create db intent_request current_user) = db \<and>
         payments (snd (initiate_payment create db intent_request current_user)) = payments db"
proof (cases "int32 (req_product_id intent_request)")
  case True
  with assms(1) have "fetch_one_product db (req_product_id intent_request) = Inr (Some p)"
    by (simp add: fetch_one_product_def)
  from initiate_payment_gateway_raises [where create = create, OF this assms(2)]
  show ?thesis by simp
next
  case False
  then show ?thesis by (simp add: initiate_payment_out_of_range)
qed

theorem initiate_payment_gateway_failure_witness:
  "find (\<lambda>q. product_pk q = req_product_id widget_request) (products widget_db) =
     Some \<lparr>product_pk = 1, product_name = ''Widget'', price_in_pence = 1999\<rparr> \<and>
   gateway_raises (CardError ''Your card was declined.'') 1999 ''gbp''
     [(''user_id'', ''1''), (''product_id'', ''1'')] = Inl (CardError ''Your card was declined.'') \<and>
   isl (fst (initiate_payment (gateway_raises (CardError ''Your card was declined.''))
               widget_db widget_request user_one)) \<and>
   snd (initiate_payment (gateway_raises (CardError ''Your card was declined.''))
          widget_db widget_request user_one) = widget_db \<and>
   payments (snd (initiate_payment (gateway_raises (CardError ''Your card was declined.''))
          widget_db widget_request user_one)) = []"
proof -
  let ?g = "gateway_raises (CardError ''Your card was declined.'')"
  have g: "?g (price_in_pence \<lparr>product_pk = 1, product_name = ''Widget'', price_in_pence = 1999\<rparr>)
             ''gbp'' [(''user_id'', str_int (user_pk user_one)),
                      (''product_id'', str_int (req_product_id widget_request))] =
           Inl (CardError ''Your card was declined.'')"
    by (simp add: gateway_raises_def)
  have g': "?g 1999 ''gbp'' [(''user_id'', ''1''), (''product_id'', ''1'')] =
           Inl (CardError ''Your card was declined.'')"
    by (simp add: gateway_raises_def)
  from initiate_payment_gateway_failure [where create = ?g, OF find_widget g]
    find_widget g' show ?thesis
    by (simp add: widget_db_def)
qed

text \<open>
  C7, as the handler is written. \<^verbatim>\<open>initiate_payment\<close> raises 404
  \<^verbatim>\<open>Product not found\<close> when the product id of the request fits the 32-bit key and no
  product of the catalog has it. When the catalog (with distinct keys) holds the
  product under that id and the gateway call raises, it raises 400 with the
  processor's message for a card error; 400 with \<^verbatim>\<open>Stripe error: \<close> followed by the
  library's message for any other Stripe error, the library's connection error
  included; and 500 with \<^verbatim>\<open>An unexpected error occurred: \<close> followed by the exception's
  text only for an exception that is not a Stripe error. The database is unchanged in
  each case.
\<close>

theorem initiate_payment_failure_classes:
  "(int32 (req_product_id intent_request) \<and>
    req_product_id intent_request \<notin> product_pk ` set (products db) \<longrightarrow>
      initiate_payment create db intent_request current_user =
        (Inl (HTTPException 404 ''Product not found''), db)) \<and>
   (int32 (req_product_id intent_request) \<and> distinct (map product_pk (products db)) \<and>
    p \<in> set (products db) \<and> product_pk p = req_product_id intent_request \<and>
    create (price_in_pence p) ''gbp''
      [(''user_id'', str_int (user_pk current_user)),
       (''product_id'', str_int (req_product_id intent_request))] = Inl (CardError m) \<longrightarrow>
      initiate_payment create db intent_request current_user =
        (Inl (HTTPException 400 m), db)) \<and>
   (int32 (req_product_id intent_request) \<and> distinct (map product_pk (products db)) \<and>
    p \<in> set (products db) \<and> product_pk p = req_product_id intent_request \<and>
    create (price_in_pence p) ''gbp''
      [(''user_id'', str_int (user_pk current_user)),
       (''product_id'', str_int (req_product_id intent_request))] = Inl (StripeError m) \<longrightarrow>
      initiate_payment create db intent_request current_user =
        (Inl (HTTPException 400 (''Stripe error: '' @ m)), db)) \<and>
   (int32 (req_product_id intent_request) \<and> distinct (map product_pk (products db)) \<and>
    p \<in> set (products db) \<and> product_pk p = req_product_id intent_request \<and>
    create (price_in_pence p) ''gbp''
      [(''user_id'', str_int (user_pk current_user)),
       (''product_id'', str_int (req_product_id intent_request))] = Inl (OtherException m) \<longrightarrow>
      initiate_payment create db intent_request current_user =
        (Inl (HTTPException 500 (''An unexpected error occurred: '' @ m)), db))"
proof -
  have absent: "initiate_payment create db intent_request current_user =
        (Inl (HTTPException 404 ''Product not found''), db)"
    if "int32 (req_product_id intent_request)"
      and "req_product_id intent_request \<notin> product_pk ` set (products db)"
    using fetch_one_product_absent [OF that(2,1)] by (simp add: initiate_payment_def)
  have raises: "initiate_payment create db intent_request current_user =
     (Inl (case e of
             CardError m \<Rightarrow> HTTPException 400 m
           | StripeError m \<Rightarrow> HTTPException 400 (''Stripe error: '' @ m)
           | OtherException m \<Rightarrow> HTTPException 500 (''An unexpected error occurred: '' @ m)),
      db)"
    if "int32 (req_product_id intent_request)" and "distinct (map product_pk (products db))"
      and "p \<in> set (products db)" and "product_pk p = req_product_id intent_request"
      and "create (price_in_pence p) ''gbp''
             [(''user_id'', str_int (user_pk current_user)),
              (''product_id'', str_int (req_product_id intent_request))] = Inl e" for e
    using initiate_payment_gateway_raises
      [where create = create, OF fetch_one_product_present [OF that(2,3,4,1)] that(5)] .
  from absent raises [of "CardError m"] raises [of "StripeError m"]
    raises [of "OtherException m"]
  show ?thesis by simp
qed

theorem initiate_payment_failure_classes_witness:
  "int32 7 \<and> 7 \<notin> product_pk ` set (products widget_db) \<and>
   initiate_payment (gateway_returns ''pi_1'' ''cs_1'') widget_db \<lparr>req_product_id = 7\<rparr> user_one =
     (Inl (HTTPException 404 ''Product not found''), widget_db) \<and>
   int32 (req_product_id widget_request) \<and> distinct (map product_pk (products widget_db)) \<and>
   \<lparr>product_pk = 1, product_name = ''Widget'', price_in_pence = 1999\<rparr> \<in> set (products widget_db) \<and>
   product_pk \<lparr>product_pk = 1, product_name = ''Widget'', price_in_pence = 1999\<rparr> =
     req_product_id widget_request \<and>
   initiate_payment (gateway_raises (CardError ''Your card was declined.'')) widget_db
       widget_request user_one =
     (Inl (HTTPException 400 ''Your card was declined.''), widget_db) \<and>
   initiate_payment (gateway_raises (StripeError ''No such customer'')) widget_db
       widget_request user_one =
     (Inl (HTTPException 400 ''Stripe error: No such customer''), widget_db) \<and>
   initiate_payment (gateway_raises (OtherException ''Connection reset'')) widget_db
       widget_request user_one =
     (Inl (HTTPException 500 ''An unexpected error occurred: Connection reset''), widget_db)"
proof -
  let ?w = "\<lparr>product_pk = 1, product_name = ''Widget'', price_in_pence = 1999\<rparr>"
  have n: "int32 (req_product_id \<lparr>req_product_id = 7\<rparr>)"
    "req_product_id \<lparr>req_product_id = 7\<rparr> \<notin> product_pk ` set (products widget_db)"
    by (simp_all add: int32_def widget_db_def)
  have g: "gateway_raises e a c md = Inl e" for e a c md
    by (simp add: gateway_raises_def)
  note c = widget_catalog
  note w = initiate_payment_failure_classes
  from n w [where db = widget_db and intent_request = "\<lparr>req_product_id = 7\<rparr>"
              and create = "gateway_returns ''pi_1'' ''cs_1''" and current_user = user_one]
  have 1: "initiate_payment (gateway_returns ''pi_1'' ''cs_1'') widget_db
             \<lparr>req_product_id = 7\<rparr> user_one =
           (Inl (HTTPException 404 ''Product not found''), widget_db)"
    by blast
  from c g
    w [where db = widget_db and intent_request = widget_request and current_user = user_one
         and create = "gateway_raises (CardError ''Your card was declined.'')"
         and m = "''Your card was declined.''" and p = ?w]
  have 2: "initiate_payment (gateway_raises (CardError ''Your card was declined.'')) widget_db
             widget_request user_one =
           (Inl (HTTPException 400 ''Your card was declined.''), widget_db)"
    by simp
  from c g
    w [where db = widget_db and intent_request = widget_request and current_user = user_one
         and create = "gateway_raises (StripeError ''No such customer'')"
         and m = "''No such customer''" and p = ?w]
  have 3: "initiate_payment (gateway_raises (StripeError ''No such customer'')) widget_db
             widget_request user_one =
           (Inl (HTTPException 400 ''Stripe error: No such customer''), widget_db)"
    by simp
  from c g
    w [where db = widget_db and intent_request = widget_request and current_user = user_one
         and create = "gateway_raises (OtherException ''Connection reset'')"
         and m = "''Connection reset''" and p = ?w]
  have 4: "initiate_payment (gateway_raises (OtherException ''Connection reset'')) widget_db
             widget_request user_one =
           (Inl (HTTPException 500 ''An unexpected error occurred: Connection reset''), widget_db)"
    by simp
  from n have n': "int32 7" "7 \<notin> product_pk ` set (products widget_db)"
    by simp_all
  from 1 2 3 4 n' c show ?thesis by simp
qed

text \<open>
  C7 as stated fails in three places. The detail of the 400 raised for a Stripe error
  that is not a card error is not one generic message: it carries the library's
  message, so two such errors give two different details. A transport failure that the
  library reports as its connection error is such a Stripe error, and is answered
  with 400, not with 500. And a product id beyond the 32-bit key, which no product
  has, is answered with the uncaught \<^verbatim>\<open>DataError\<close> of the query, not with 404.
\<close>

theorem initiate_payment_stripe_error_detail:
  "initiate_payment (gateway_raises (StripeError ''No such customer'')) widget_db
       widget_request user_one =
     (Inl (HTTPException 400 ''Stripe error: No such customer''), widget_db) \<and>
   initiate_payment
       (gateway_raises (StripeError ''Unexpected error communicating with Stripe.''))
       widget_db widget_request user_one =
     (Inl (HTTPException 400 ''Stripe error: Unexpected error communicating with Stripe.''),
      widget_db) \<and>
   fst (initiate_payment (gateway_raises (StripeError ''No such customer'')) widget_db
       widget_request user_one) \<noteq>
   fst (initiate_payment
       (gateway_raises (StripeError ''Unexpected error communicating with Stripe.''))
       widget_db widget_request user_one) \<and>
   2147483648 \<notin> product_pk ` set (products widget_db) \<and>
   initiate_payment (gateway_returns ''pi_1'' ''cs_1'') widget_db
       \<lparr>req_product_id = 2147483648\<rparr> user_one = (Inl DataError, widget_db)"
  by (simp add: initiate_payment_widget_raises initiate_payment_out_of_range int32_def)
     (simp add: widget_db_def)

end
